theory Spec2Isabelle
  imports Complex_Main
begin

section \<open>JavaScript values as the server reads them\<close>

text \<open>
  The notifier is one Node.js module, kept in the repository in several variants. The one
  modelled here is the most complete: it reads an acknowledgement level and a timeout from
  the request and answers with the outcome of the wait. Where the shorter variant of the
  same module, or an older one, differs in a way that matters below, the difference is
  modelled next to it and named so.

  Values that reach the module from the JSON body of a request
  are modelled by \<open>jsval\<close>; numbers are IEEE doubles, of which the module only ever asks
  whether one is NaN, how it compares with a constant, and whether it is zero, so a number is
  a real, one of the two infinities, or NaN. Array and object values of a body field are
  outside the model. A string is a list of characters, a character being a code unit below
  256 (the Latin-1 range); strings with higher code units are outside the model. On that
  range \<open>toLowerCase\<close> maps A to Z and the accented capitals 192 to 222, the
  multiplication sign 215 excepted, to the letter 32 above, and \<open>trim\<close> removes tab, line
  feed, vertical tab, form feed, carriage return, space and the no-break space 160 from both
  ends.

  The two conversions between numbers and strings (\<open>Number\<close> of a string, \<open>String\<close> of a
  number) are the engine's; they are parameters of the model, collected in \<open>engine\<close>.
\<close>

datatype jsnum = NaN | NegInf | Fin real | PosInf

datatype jsval = JUndefined | JNull | JBool bool | JNum jsnum | JStr string

record engine =
  string_to_num :: "string \<Rightarrow> jsnum"
  num_to_string :: "jsnum \<Rightarrow> string"

fun js_lt :: "jsnum \<Rightarrow> jsnum \<Rightarrow> bool" where
  "js_lt NaN _ = False"
| "js_lt _ NaN = False"
| "js_lt NegInf NegInf = False"
| "js_lt NegInf _ = True"
| "js_lt (Fin x) (Fin y) = (x < y)"
| "js_lt (Fin x) PosInf = True"
| "js_lt (Fin x) NegInf = False"
| "js_lt PosInf _ = False"

fun js_ge :: "jsnum \<Rightarrow> jsnum \<Rightarrow> bool" where
  "js_ge NaN _ = False"
| "js_ge _ NaN = False"
| "js_ge a b = (\<not> js_lt a b)"

definition isNaN :: "jsnum \<Rightarrow> bool" where
  "isNaN n = (n = NaN)"

fun truthy :: "jsval \<Rightarrow> bool" where
  "truthy JUndefined = False"
| "truthy JNull = False"
| "truthy (JBool b) = b"
| "truthy (JNum n) = (n \<noteq> NaN \<and> n \<noteq> Fin 0)"
| "truthy (JStr s) = (s \<noteq> [])"

text \<open>\<open>a || b\<close> on values.\<close>

definition js_or :: "jsval \<Rightarrow> jsval \<Rightarrow> jsval" where
  "js_or a b = (if truthy a then a else b)"

fun js_String :: "engine \<Rightarrow> jsval \<Rightarrow> string" where
  "js_String E JUndefined = ''undefined''"
| "js_String E JNull = ''null''"
| "js_String E (JBool b) = (if b then ''true'' else ''false'')"
| "js_String E (JNum n) = num_to_string E n"
| "js_String E (JStr s) = s"

fun js_Number :: "engine \<Rightarrow> jsval \<Rightarrow> jsnum" where
  "js_Number E JUndefined = NaN"
| "js_Number E JNull = Fin 0"
| "js_Number E (JBool b) = (if b then Fin 1 else Fin 0)"
| "js_Number E (JNum n) = n"
| "js_Number E (JStr s) = string_to_num E s"

definition lower_char :: "char \<Rightarrow> char" where
  "lower_char c =
     (let n = (of_char c :: nat)
      in if (65 \<le> n \<and> n \<le> 90) \<or> (192 \<le> n \<and> n \<le> 222 \<and> n \<noteq> 215) then char_of (n + 32)
         else c)"

definition toLowerCase :: "string \<Rightarrow> string" where
  "toLowerCase s = map lower_char s"

definition is_space :: "char \<Rightarrow> bool" where
  "is_space c = (let n = (of_char c :: nat) in (9 \<le> n \<and> n \<le> 13) \<or> n = 32 \<or> n = 160)"

definition trim :: "string \<Rightarrow> string" where
  "trim s = rev (dropWhile is_space (rev (dropWhile is_space s)))"

text \<open>\<open>process.env.X || d\<close>: an unset or empty variable gives the default.\<close>

definition env_or :: "string option \<Rightarrow> string \<Rightarrow> string" where
  "env_or v d = (case v of None \<Rightarrow> d | Some s \<Rightarrow> if s = [] then d else s)"

text \<open>Decimal rendering of an integer, which is what \<open>String\<close> gives for the acknowledgement
  codes the transport reports.\<close>

fun show_nat :: "nat \<Rightarrow> string" where
  "show_nat n = (if n < 10 then [char_of (48 + n)] else show_nat (n div 10) @ [char_of (48 + n mod 10)])"

declare show_nat.simps [simp del]

definition show_int :: "int \<Rightarrow> string" where
  "show_int i = (if i < 0 then CHR ''-'' # show_nat (nat (- i)) else show_nat (nat i))"

section \<open>Acknowledgement levels\<close>

text \<open>
  \<open>AckMap\<close> is the object literal \<open>{ server: 1, device: 2, read: 3, played: 4 }\<close>. Reading
  \<open>AckMap[k]\<close> is an ordinary property read: a key the literal does not own is looked up on
  \<open>Object.prototype\<close>, whose members are functions (and, for \<open>__proto__\<close>, the prototype
  object itself). \<open>PObject k\<close> stands for the member found there under the name \<open>k\<close>.
\<close>

datatype jsprop = PUndefined | PNum int | PObject string

definition Object_prototype_keys :: "string list" where
  "Object_prototype_keys =
     [''constructor'', ''__defineGetter__'', ''__defineSetter__'', ''hasOwnProperty'',
      ''__lookupGetter__'', ''__lookupSetter__'', ''isPrototypeOf'', ''propertyIsEnumerable'',
      ''toString'', ''valueOf'', ''__proto__'', ''toLocaleString'']"

definition AckMap :: "string \<Rightarrow> jsprop" where
  "AckMap k =
     (if k = ''server'' then PNum 1
      else if k = ''device'' then PNum 2
      else if k = ''read'' then PNum 3
      else if k = ''played'' then PNum 4
      else if k \<in> set Object_prototype_keys then PObject k
      else PUndefined)"

fun prop_truthy :: "jsprop \<Rightarrow> bool" where
  "prop_truthy PUndefined = False"
| "prop_truthy (PNum n) = (n \<noteq> 0)"
| "prop_truthy (PObject k) = True"

record ack_level =
  name :: string
  code :: jsprop

definition parseAckLevel :: "engine \<Rightarrow> string \<Rightarrow> jsval \<Rightarrow> ack_level" where
  "parseAckLevel E fallback s =
     (let k = toLowerCase (js_String E (js_or s (JStr fallback)))
      in if prop_truthy (AckMap k) then \<lparr>name = k, code = AckMap k\<rparr>
         else \<lparr>name = ''server'', code = PNum 1\<rparr>)"

section \<open>Waiting for an acknowledgement\<close>

text \<open>
  A message object of the transport, as far as the module reads it: \<open>id?._serialized\<close>,
  \<open>_serialized\<close> and \<open>ack\<close>, each possibly undefined. The message handed to a
  \<open>message_ack\<close> listener is read through \<open>msg?.\<close>, so a null or undefined event message
  behaves as the record with every field undefined.
\<close>

record wa_message =
  id_serialized :: "string option"
  serialized :: "string option"
  msg_ack :: "int option"

text \<open>\<open>m.id?._serialized || m._serialized\<close>; the result is falsy when it is undefined or
  the empty string.\<close>

definition str_truthy :: "string option \<Rightarrow> bool" where
  "str_truthy v = (case v of None \<Rightarrow> False | Some s \<Rightarrow> s \<noteq> [])"

definition message_key :: "wa_message \<Rightarrow> string option" where
  "message_key m = (if str_truthy (id_serialized m) then id_serialized m else serialized m)"

text \<open>\<open>ack >= minAckCode\<close>, the level a number and the minimum whatever \<open>parseAckLevel\<close>
  gave as code: a function or object converts to a string that is no number, hence to NaN,
  and the comparison is false.\<close>

fun ack_reaches :: "int \<Rightarrow> jsprop \<Rightarrow> bool" where
  "ack_reaches a (PNum m) = (m \<le> a)"
| "ack_reaches a _ = False"

record ack_result =
  r_ack :: int
  r_timedOut :: bool

text \<open>
  The closure that \<open>waitForAck\<close> builds: its constants (\<open>targetId\<close>, the minimum code,
  the message, the delay of the timer), the flag \<open>settled\<close>, whether \<open>onAck\<close> is among
  the client's \<open>message_ack\<close> listeners, and every call of \<open>resolve\<close> so far, oldest
  first. The promise takes the value of the first call.
\<close>

record wait =
  targetId :: "string option"
  minAckCode :: jsprop
  message :: wa_message
  timeoutMs :: jsnum
  settled :: bool
  listening :: bool
  resolved :: "ack_result list"

definition waitForAck :: "wa_message \<Rightarrow> jsprop \<Rightarrow> jsnum \<Rightarrow> wait" where
  "waitForAck m minAck t =
     \<lparr>targetId = message_key m, minAckCode = minAck, message = m, timeoutMs = t,
      settled = False, listening = True, resolved = []\<rparr>"

definition cleanup :: "wait \<Rightarrow> wait" where
  "cleanup w = w\<lparr>settled := True, listening := False\<rparr>"

definition resolve :: "ack_result \<Rightarrow> wait \<Rightarrow> wait" where
  "resolve r w = w\<lparr>resolved := resolved w @ [r]\<rparr>"

definition onAck :: "wait \<Rightarrow> wa_message \<Rightarrow> int \<Rightarrow> wait" where
  "onAck w msg a =
     (let id = message_key msg
      in if \<not> str_truthy id \<or> id \<noteq> targetId w then w
         else if ack_reaches a (minAckCode w)
              then resolve \<lparr>r_ack = a, r_timedOut = False\<rparr> (cleanup w)
              else w)"

definition onTimeout :: "wait \<Rightarrow> wait" where
  "onTimeout w =
     (if \<not> settled w
      then resolve \<lparr>r_ack = (case msg_ack (message w) of None \<Rightarrow> 1 | Some a \<Rightarrow> a),
                     r_timedOut = True\<rparr> (cleanup w)
      else w)"

text \<open>
  What can happen to a pending wait: the client emits \<open>message_ack\<close>, which calls
  \<open>onAck\<close> if and only if it is still a listener, or the timer fires.
\<close>

datatype event = MessageAck wa_message int | TimerFired

fun step :: "wait \<Rightarrow> event \<Rightarrow> wait" where
  "step w (MessageAck msg a) = (if listening w then onAck w msg a else w)"
| "step w TimerFired = onTimeout w"

definition run :: "wait \<Rightarrow> event list \<Rightarrow> wait" where
  "run w evs = foldl step w evs"

definition promise :: "wait \<Rightarrow> ack_result option" where
  "promise w = (case resolved w of [] \<Rightarrow> None | r # _ \<Rightarrow> Some r)"

text \<open>An event that makes \<open>onAck\<close> resolve the wait \<open>w\<close>.\<close>

fun qualifies :: "wait \<Rightarrow> event \<Rightarrow> bool" where
  "qualifies w (MessageAck msg a) =
     (str_truthy (message_key msg) \<and> message_key msg = targetId w \<and> ack_reaches a (minAckCode w))"
| "qualifies w TimerFired = False"

fun is_ack :: "event \<Rightarrow> bool" where
  "is_ack (MessageAck _ _) = True"
| "is_ack TimerFired = False"

text \<open>Several waits at once: the client calls every listener of \<open>message_ack\<close> with the
  same message and level; each timer belongs to one wait.\<close>

definition emit :: "wa_message \<Rightarrow> int \<Rightarrow> wait list \<Rightarrow> wait list" where
  "emit msg a ws = map (\<lambda>w. step w (MessageAck msg a)) ws"

definition ack_event :: "wa_message \<times> int \<Rightarrow> event" where
  "ack_event p = MessageAck (fst p) (snd p)"

text \<open>The shorter variant of the module writes the listener as
  \<open>if (id === targetId && ack >= minAckCode) { cleanup(); resolve(...) }\<close>, without the
  test that \<open>id\<close> is truthy.\<close>

definition onAck_short :: "wait \<Rightarrow> wa_message \<Rightarrow> int \<Rightarrow> wait" where
  "onAck_short w msg a =
     (if message_key msg = targetId w \<and> ack_reaches a (minAckCode w)
      then resolve \<lparr>r_ack = a, r_timedOut = False\<rparr> (cleanup w)
      else w)"

section \<open>Start-up\<close>

text \<open>
  The environment variables the module reads, and the constants it derives from them before
  anything else runs. \<open>startup\<close> is the three guards at the top of the module: each calls
  \<open>process.exit(1)\<close>; past them the module goes on to connect to the store, to initialise
  the client and to listen. (The shorter variant of the module differs here in one constant,
  the default of \<open>ACK_TIMEOUT_MS\<close>, 60000 instead of 20000.)
\<close>

record environment =
  env_BOT_TOKEN :: "string option"
  env_MONGO_URL :: "string option"
  env_ACK_LEVEL_DEFAULT :: "string option"
  env_ACK_TIMEOUT_MS :: "string option"
  env_WA_BACKUP_MS :: "string option"

record config =
  BOT_TOKEN :: string
  MONGO_URL :: string
  ACK_LEVEL_DEFAULT :: string
  ACK_TIMEOUT_MS :: jsnum
  BACKUP_MS :: jsnum

definition read_config :: "engine \<Rightarrow> environment \<Rightarrow> config" where
  "read_config E env =
     \<lparr>BOT_TOKEN = env_or (env_BOT_TOKEN env) [],
      MONGO_URL = env_or (env_MONGO_URL env) [],
      ACK_LEVEL_DEFAULT = toLowerCase (env_or (env_ACK_LEVEL_DEFAULT env) ''device''),
      ACK_TIMEOUT_MS =
        (case env_ACK_TIMEOUT_MS env of
           None \<Rightarrow> Fin 20000
         | Some s \<Rightarrow> if s = [] then Fin 20000 else string_to_num E s),
      BACKUP_MS =
        string_to_num E (case env_WA_BACKUP_MS env of None \<Rightarrow> ''0'' | Some s \<Rightarrow> s)\<rparr>"

datatype boot = Exit nat | Proceed config

definition startup :: "engine \<Rightarrow> environment \<Rightarrow> boot" where
  "startup E env =
     (let cfg = read_config E env
      in if BOT_TOKEN cfg = [] \<or> MONGO_URL cfg = [] then Exit 1
         else if isNaN (BACKUP_MS cfg) \<or> js_lt (BACKUP_MS cfg) (Fin 0) then Exit 1
         else if BACKUP_MS cfg \<noteq> Fin 0 \<and> js_lt (BACKUP_MS cfg) (Fin 60000) then Exit 1
         else Proceed cfg)"

text \<open>
  The oldest variant of the module that knows \<open>WA_BACKUP_MS\<close> (it has no acknowledgement
  levels and waits ten seconds for the server level only) keeps the first guard and has no
  other: a variable that is set but is not a finite number of at least 60000 leaves the
  backup off, and the module goes on.
\<close>

fun isFinite :: "jsnum \<Rightarrow> bool" where
  "isFinite (Fin x) = True"
| "isFinite _ = False"

definition backupSyncIntervalMs_older :: "engine \<Rightarrow> string option \<Rightarrow> jsnum option" where
  "backupSyncIntervalMs_older E v =
     (case v of
        None \<Rightarrow> None
      | Some s \<Rightarrow>
          if s = [] then None
          else let n = string_to_num E s
               in if isFinite n \<and> js_ge n (Fin 60000) then Some n else None)"

datatype boot_older = Exit_older nat | Proceed_older "jsnum option"

definition startup_older :: "engine \<Rightarrow> environment \<Rightarrow> boot_older" where
  "startup_older E env =
     (if env_or (env_BOT_TOKEN env) [] = [] \<or> env_or (env_MONGO_URL env) [] = [] then Exit_older 1
      else Proceed_older (backupSyncIntervalMs_older E (env_WA_BACKUP_MS env)))"

section \<open>The \<open>/send-group\<close> handler\<close>

text \<open>An entry of the conversation listing, as far as the handler reads it: \<open>isGroup\<close>,
  \<open>name\<close> (possibly undefined) and \<open>id._serialized\<close>.\<close>

record chat =
  isGroup :: bool
  chat_name :: "string option"
  chat_id :: string

record body =
  b_bot_token :: jsval
  b_group :: jsval
  b_groupId :: jsval
  b_message :: jsval
  b_ack :: jsval
  b_timeoutMs :: jsval

text \<open>
  What the transport does when the handler calls it: the conversation listing
  (\<open>getChats\<close>), the send (\<open>sendMessage\<close>), either of which may reject, and the events that
  reach a wait once it is armed, in the order in which they happen.
\<close>

datatype rejection = Rejected

record world =
  getChats :: "rejection + chat list"
  sendMessage :: "string \<Rightarrow> string \<Rightarrow> rejection + wa_message"
  events :: "event list"

record sent_reply =
  ok :: bool
  groupId :: string
  messageId :: "string option"
  ack :: string
  timedOut :: bool
  waitedFor :: string
  reply_timeoutMs :: jsnum

datatype payload = Error string | Sent sent_reply

record response =
  status :: nat
  payload :: payload

text \<open>\<open>String(v || "").trim()\<close>, as the handler reads each text field of the body.\<close>

definition text_field :: "engine \<Rightarrow> jsval \<Rightarrow> string" where
  "text_field E v = trim (js_String E (js_or v (JStr [])))"

text \<open>\<open>Number(req.body?.timeoutMs || ACK_TIMEOUT_MS)\<close>.\<close>

definition request_timeout :: "engine \<Rightarrow> config \<Rightarrow> jsval \<Rightarrow> jsnum" where
  "request_timeout E cfg v = js_Number E (js_or v (JNum (ACK_TIMEOUT_MS cfg)))"

text \<open>\<open>c.isGroup && String(c.name || "").toLowerCase() === group.toLowerCase()\<close>.\<close>

definition group_matches :: "string \<Rightarrow> chat \<Rightarrow> bool" where
  "group_matches grp c =
     (isGroup c \<and>
      toLowerCase (case chat_name c of None \<Rightarrow> [] | Some n \<Rightarrow> n) = toLowerCase grp)"

text \<open>The block that resolves the chat: it ends with a chat identifier, with a reply, or
  with the rejection of \<open>getChats\<close>, which the handler's \<open>catch\<close> receives.\<close>

datatype resolution = Chat string | Reply nat string | Failed

definition resolve_chat :: "string \<Rightarrow> string \<Rightarrow> rejection + chat list \<Rightarrow> resolution" where
  "resolve_chat gid grp chats =
     (if gid \<noteq> [] then Chat gid
      else if grp \<noteq> [] then
        (case chats of
           Inl _ \<Rightarrow> Failed
         | Inr cs \<Rightarrow>
             (case find (group_matches grp) cs of
                None \<Rightarrow> Reply 404 ''group not found''
              | Some g \<Rightarrow> Chat (chat_id g)))
      else Reply 400 ''groupId or group is required'')"

definition ackNames :: "int \<Rightarrow> string option" where
  "ackNames a =
     (if a = 0 then Some ''error''
      else if a = 1 then Some ''server''
      else if a = 2 then Some ''device''
      else if a = 3 then Some ''read''
      else if a = 4 then Some ''played''
      else None)"

definition ackStr :: "int \<Rightarrow> string" where
  "ackStr a = (case ackNames a of Some n \<Rightarrow> n | None \<Rightarrow> show_int a)"

text \<open>After the send: arm the wait, and answer when its promise has a value. The result is
  \<open>None\<close> as long as the promise is pending.\<close>

definition send_and_wait ::
  "world \<Rightarrow> string \<Rightarrow> string \<Rightarrow> ack_level \<Rightarrow> jsnum \<Rightarrow> response option" where
  "send_and_wait W chatId text lvl t =
     (case sendMessage W chatId text of
        Inl _ \<Rightarrow> Some \<lparr>status = 500, payload = Error ''send failed''\<rparr>
      | Inr msg \<Rightarrow>
          (case promise (run (waitForAck msg (code lvl) t) (events W)) of
             None \<Rightarrow> None
           | Some r \<Rightarrow>
               Some \<lparr>status = 200,
                     payload = Sent
                       \<lparr>ok = True, groupId = chatId,
                        messageId =
                          (if str_truthy (id_serialized msg) then id_serialized msg else None),
                        ack = ackStr (r_ack r), timedOut = r_timedOut r,
                        waitedFor = name lvl, reply_timeoutMs = t\<rparr>\<rparr>))"

text \<open>The route, with its middleware \<open>requireBodyToken\<close> first.\<close>

definition send_group :: "engine \<Rightarrow> config \<Rightarrow> bool \<Rightarrow> body \<Rightarrow> world \<Rightarrow> response option" where
  "send_group E cfg isReady b W =
     (if b_bot_token b \<noteq> JStr (BOT_TOKEN cfg)
      then Some \<lparr>status = 401, payload = Error ''unauthorized''\<rparr>
      else if \<not> isReady
      then Some \<lparr>status = 503, payload = Error ''whatsapp not ready''\<rparr>
      else
        let grp = text_field E (b_group b);
            gid = text_field E (b_groupId b);
            text = text_field E (b_message b)
        in if text = []
           then Some \<lparr>status = 400, payload = Error ''message is required''\<rparr>
           else
             let lvl = parseAckLevel E (ACK_LEVEL_DEFAULT cfg) (b_ack b);
                 t = request_timeout E cfg (b_timeoutMs b)
             in case resolve_chat gid grp (getChats W) of
                  Reply st e \<Rightarrow> Some \<lparr>status = st, payload = Error e\<rparr>
                | Failed \<Rightarrow> Some \<lparr>status = 500, payload = Error ''send failed''\<rparr>
                | Chat chatId \<Rightarrow> send_and_wait W chatId text lvl t)"

text \<open>The module as a whole: no route exists unless the guards let the module past them.\<close>

definition server ::
  "engine \<Rightarrow> environment \<Rightarrow> (bool \<Rightarrow> body \<Rightarrow> world \<Rightarrow> response option) option" where
  "server E env =
     (case startup E env of
        Exit n \<Rightarrow> None
      | Proceed cfg \<Rightarrow> Some (send_group E cfg))"

text \<open>What holds of a wait from the moment it is armed: it is pending, unsettled and
  listening, or it has one resolution, is settled and listens no more.\<close>

definition wait_inv :: "wait \<Rightarrow> bool" where
  "wait_inv w =
     (if resolved w = [] then \<not> settled w \<and> listening w
      else settled w \<and> \<not> listening w \<and> length (resolved w) = 1)"

section \<open>Example data\<close>

text \<open>An engine given by a table of the few conversions the examples below consult.\<close>

definition table_engine :: engine where
  "table_engine =
     \<lparr>string_to_num =
        (\<lambda>s. if s = ''0'' then Fin 0
             else if s = ''30000'' then Fin 30000
             else if s = ''60000'' then Fin 60000
             else if s = ''5000'' then Fin 5000
             else NaN),
      num_to_string = (\<lambda>n. if n = Fin 5 then ''5'' else ''NaN'')\<rparr>"

definition msg_A :: wa_message where
  "msg_A = \<lparr>id_serialized = Some ''true_1203@g.us_A'', serialized = None, msg_ack = None\<rparr>"

definition msg_B :: wa_message where
  "msg_B = \<lparr>id_serialized = Some ''true_1203@g.us_B'', serialized = None, msg_ack = Some 1\<rparr>"

definition msg_C :: wa_message where
  "msg_C = \<lparr>id_serialized = Some ''true_1203@g.us_C'', serialized = None, msg_ack = Some 2\<rparr>"

definition msg_D :: wa_message where
  "msg_D = \<lparr>id_serialized = Some ''true_1203@g.us_D'', serialized = None, msg_ack = Some (- 1)\<rparr>"

definition cfg_A :: config where
  "cfg_A =
     \<lparr>BOT_TOKEN = ''s3cret'', MONGO_URL = ''mongodb://db/wa_remoteauth'',
      ACK_LEVEL_DEFAULT = ''device'', ACK_TIMEOUT_MS = Fin 20000, BACKUP_MS = Fin 0\<rparr>"

definition env_A :: environment where
  "env_A =
     \<lparr>env_BOT_TOKEN = Some ''s3cret'', env_MONGO_URL = Some ''mongodb://db/wa_remoteauth'',
      env_ACK_LEVEL_DEFAULT = None, env_ACK_TIMEOUT_MS = None, env_WA_BACKUP_MS = None\<rparr>"

definition body_A :: body where
  "body_A =
     \<lparr>b_bot_token = JStr ''s3cret'', b_group = JStr ''Release Notices'',
      b_groupId = JStr ''1203@g.us'', b_message = JStr ''build passed'',
      b_ack = JStr ''read'', b_timeoutMs = JNum (Fin 5000)\<rparr>"

definition chats_A :: "chat list" where
  "chats_A =
     [\<lparr>isGroup = False, chat_name = Some ''Release Notices'', chat_id = ''4477@c.us''\<rparr>,
      \<lparr>isGroup = True, chat_name = Some ''release NOTICES'', chat_id = ''1204@g.us''\<rparr>,
      \<lparr>isGroup = True, chat_name = Some ''Release Notices'', chat_id = ''1205@g.us''\<rparr>]"


text \<open>A transport that lists \<open>cs\<close>, accepts a send of the text \<open>wanted\<close> to the chat
  \<open>accepted\<close> only, returning the message \<open>m\<close>, and then lets the events \<open>evs\<close> happen.\<close>

definition world_with :: "chat list \<Rightarrow> string \<Rightarrow> string \<Rightarrow> wa_message \<Rightarrow> event list \<Rightarrow> world" where
  "world_with cs accepted wanted m evs =
     \<lparr>getChats = Inr cs,
      sendMessage = (\<lambda>chatId text. if chatId = accepted \<and> text = wanted then Inr m else Inl Rejected),
      events = evs\<rparr>"


section \<open>Properties of the wait\<close>

lemma run_Nil: "run w [] = w"
  by (simp add: run_def)

lemma run_Cons: "run w (e # evs) = run (step w e) evs"
  by (simp add: run_def)

lemma run_append: "run w (xs @ ys) = run (run w xs) ys"
  by (simp add: run_def)

lemma step_after_cleanup: "settled w \<Longrightarrow> \<not> listening w \<Longrightarrow> step w e = w"
  by (cases e) (simp_all add: onTimeout_def)

lemma run_after_cleanup: "settled w \<Longrightarrow> \<not> listening w \<Longrightarrow> run w evs = w"
  by (induction evs) (simp_all add: run_Nil run_Cons step_after_cleanup)

lemma wait_inv_init: "wait_inv (waitForAck m minAck t)"
  by (simp add: wait_inv_def waitForAck_def)

lemma wait_inv_step: "wait_inv w \<Longrightarrow> wait_inv (step w e)"
  by (cases e)
    (auto simp add: wait_inv_def onAck_def onTimeout_def resolve_def cleanup_def Let_def
      split: if_splits)

lemma wait_inv_run: "wait_inv w \<Longrightarrow> wait_inv (run w evs)"
  by (induction evs arbitrary: w) (simp_all add: run_Nil run_Cons wait_inv_step)

lemma resolved_after_timer: "wait_inv w \<Longrightarrow> resolved (step w TimerFired) \<noteq> []"
  by (auto simp add: wait_inv_def onTimeout_def resolve_def cleanup_def split: if_splits)

lemma resolved_stays: "wait_inv w \<Longrightarrow> resolved w \<noteq> [] \<Longrightarrow> run w evs = w"
  by (rule run_after_cleanup) (simp_all add: wait_inv_def split: if_splits)

lemma resolved_timer_run:
  "wait_inv w \<Longrightarrow> TimerFired \<in> set evs \<Longrightarrow> resolved (run w evs) \<noteq> []"
proof (induction evs arbitrary: w)
  case Nil
  then show ?case by simp
next
  case (Cons e evs)
  show ?case
  proof (cases "e = TimerFired")
    case True
    have fired: "resolved (step w e) \<noteq> []"
      unfolding True using Cons.prems(1) by (rule resolved_after_timer)
    moreover have "wait_inv (step w e)"
      using Cons.prems(1) by (rule wait_inv_step)
    ultimately have "run (step w e) evs = step w e"
      by (simp add: resolved_stays)
    then show ?thesis
      using fired by (simp add: run_Cons)
  next
    case False
    then have "TimerFired \<in> set evs"
      using Cons.prems(2) by auto
    then show ?thesis
      using Cons.IH [OF wait_inv_step [OF Cons.prems(1)]] by (simp add: run_Cons)
  qed
qed

text \<open>
  C1. Whatever the message, the minimum level and the delay, and in whatever order
  acknowledgement events and the firing of the timer arrive, \<open>resolve\<close> is called at most
  once; it has been called exactly once as soon as the timer has fired; and once it has been
  called, every later event or firing leaves the wait as it is.
\<close>

theorem waitForAck_resolves_exactly_once:
  "length (resolved (run (waitForAck m minAck t) evs)) \<le> 1
   \<and> (TimerFired \<in> set evs \<longrightarrow> length (resolved (run (waitForAck m minAck t) evs)) = 1)
   \<and> (resolved (run (waitForAck m minAck t) evs) \<noteq> [] \<longrightarrow>
        run (waitForAck m minAck t) (evs @ later) = run (waitForAck m minAck t) evs)"
proof -
  let ?w = "run (waitForAck m minAck t) evs"
  have inv: "wait_inv ?w"
    by (simp add: wait_inv_run wait_inv_init)
  then have le: "length (resolved ?w) \<le> 1"
    by (simp add: wait_inv_def split: if_splits)
  have timer: "length (resolved ?w) = 1" if "TimerFired \<in> set evs"
  proof -
    have "resolved ?w \<noteq> []"
      using that by (simp add: resolved_timer_run wait_inv_init)
    then show ?thesis
      using inv by (simp add: wait_inv_def split: if_splits)
  qed
  have later: "run (waitForAck m minAck t) (evs @ later) = ?w" if "resolved ?w \<noteq> []"
    using that inv by (simp add: run_append resolved_stays)
  show ?thesis
    using le timer later by blast
qed

theorem waitForAck_resolves_exactly_once_witness:
  "TimerFired \<in> set [MessageAck msg_A 2, TimerFired]
   \<and> resolved (run (waitForAck msg_A (PNum 2) (Fin 5000)) [MessageAck msg_A 2, TimerFired])
       = [\<lparr>r_ack = 2, r_timedOut = False\<rparr>]
   \<and> run (waitForAck msg_A (PNum 2) (Fin 5000))
         ([MessageAck msg_A 2, TimerFired] @ [MessageAck msg_A 3, TimerFired])
       = run (waitForAck msg_A (PNum 2) (Fin 5000)) [MessageAck msg_A 2, TimerFired]"
  using waitForAck_resolves_exactly_once
    [of msg_A "PNum 2" "Fin 5000" "[MessageAck msg_A 2, TimerFired]"
        "[MessageAck msg_A 3, TimerFired]"]
  by (simp add: run_def waitForAck_def onAck_def onTimeout_def resolve_def cleanup_def
      message_key_def str_truthy_def msg_A_def Let_def)

lemma step_not_qualifying: "is_ack e \<Longrightarrow> \<not> qualifies w e \<Longrightarrow> step w e = w"
  by (cases e) (auto simp add: onAck_def Let_def)

lemma run_not_qualifying:
  "\<forall>e \<in> set evs. is_ack e \<and> \<not> qualifies w e \<Longrightarrow> run w evs = w"
  by (induction evs) (simp_all add: run_Nil run_Cons step_not_qualifying)

lemma run_acks_not_qualifying:
  "\<forall>p \<in> set pre. \<not> qualifies w (ack_event p) \<Longrightarrow> run w (map ack_event pre) = w"
  by (rule run_not_qualifying) (auto simp add: ack_event_def)

lemma step_qualifying:
  "listening w \<Longrightarrow> qualifies w (MessageAck msg a) \<Longrightarrow>
   step w (MessageAck msg a) = resolve \<lparr>r_ack = a, r_timedOut = False\<rparr> (cleanup w)"
  by (auto simp add: onAck_def Let_def)

lemma promise_resolve_cleanup:
  "resolved w = [] \<Longrightarrow> promise (run (resolve r (cleanup w)) evs) = Some r"
  by (simp add: run_after_cleanup resolve_def cleanup_def promise_def)

lemma run_first_qualifying:
  assumes "\<forall>p \<in> set pre. \<not> qualifies (waitForAck m minAck t) (ack_event p)"
    and "qualifies (waitForAck m minAck t) (MessageAck msg L)"
  shows "promise (run (waitForAck m minAck t) (map ack_event pre @ MessageAck msg L # post))
          = Some \<lparr>r_ack = L, r_timedOut = False\<rparr>"
proof -
  let ?w = "waitForAck m minAck t"
  have "run ?w (map ack_event pre) = ?w"
    using assms(1) by (rule run_acks_not_qualifying)
  moreover have "step ?w (MessageAck msg L) = resolve \<lparr>r_ack = L, r_timedOut = False\<rparr> (cleanup ?w)"
    using assms(2) by (intro step_qualifying) (simp add: waitForAck_def)
  moreover have "resolved ?w = []"
    by (simp add: waitForAck_def)
  ultimately show ?thesis
    by (simp add: run_append run_Cons promise_resolve_cleanup)
qed

lemma run_timeout_first:
  assumes "\<forall>p \<in> set pre. \<not> qualifies (waitForAck m minAck t) (ack_event p)"
  shows "promise (run (waitForAck m minAck t) (map ack_event pre @ TimerFired # post))
          = Some \<lparr>r_ack = (case msg_ack m of None \<Rightarrow> 1 | Some a \<Rightarrow> a), r_timedOut = True\<rparr>"
proof -
  let ?w = "waitForAck m minAck t"
  have "run ?w (map ack_event pre) = ?w"
    using assms by (rule run_acks_not_qualifying)
  moreover have "step ?w TimerFired =
      resolve \<lparr>r_ack = (case msg_ack m of None \<Rightarrow> 1 | Some a \<Rightarrow> a), r_timedOut = True\<rparr> (cleanup ?w)"
    by (simp add: onTimeout_def waitForAck_def)
  moreover have "resolved ?w = []"
    by (simp add: waitForAck_def)
  ultimately show ?thesis
    by (simp add: run_append run_Cons promise_resolve_cleanup)
qed

lemma split_first_qualifying:
  "\<exists>p \<in> set pre. P p \<Longrightarrow> \<exists>xs y ys. pre = xs @ y # ys \<and> P y \<and> (\<forall>x \<in> set xs. \<not> P x)"
  by (metis split_list_first_prop)

lemma qualifies_waitForAck:
  "qualifies (waitForAck m minAck t) (ack_event p) \<longleftrightarrow>
     str_truthy (message_key (fst p)) \<and> message_key (fst p) = message_key m
     \<and> ack_reaches (snd p) minAck"
  by (simp add: ack_event_def waitForAck_def)

text \<open>
  C2. With the acknowledgement events \<open>pre\<close> observed before the timer fires, and whatever
  happens afterwards, the promise of \<open>waitForAck m (PNum k) t\<close> has a value, and its
  \<open>timedOut\<close> is true if and only if no event of \<open>pre\<close> carries an identifier equal to
  that of the awaited message \<open>m\<close> together with a level of at least \<open>k\<close>.
\<close>

theorem timedOut_iff_no_qualifying_ack:
  "\<exists>r. promise (run (waitForAck m (PNum k) t) (map ack_event pre @ TimerFired # post)) = Some r
      \<and> (r_timedOut r \<longleftrightarrow>
           (\<forall>p \<in> set pre. \<not> (str_truthy (message_key (fst p))
                                \<and> message_key (fst p) = message_key m \<and> k \<le> snd p)))"
proof (cases "\<forall>p \<in> set pre. \<not> qualifies (waitForAck m (PNum k) t) (ack_event p)")
  case True
  then have "promise (run (waitForAck m (PNum k) t) (map ack_event pre @ TimerFired # post))
      = Some \<lparr>r_ack = (case msg_ack m of None \<Rightarrow> 1 | Some a \<Rightarrow> a), r_timedOut = True\<rparr>"
    by (rule run_timeout_first)
  moreover have "\<forall>p \<in> set pre. \<not> (str_truthy (message_key (fst p))
                                \<and> message_key (fst p) = message_key m \<and> k \<le> snd p)"
    using True by (simp add: qualifies_waitForAck)
  ultimately show ?thesis
    by simp
next
  case False
  then obtain xs y ys where pre: "pre = xs @ y # ys"
    and y: "qualifies (waitForAck m (PNum k) t) (ack_event y)"
    and xs: "\<forall>x \<in> set xs. \<not> qualifies (waitForAck m (PNum k) t) (ack_event x)"
    using split_first_qualifying [of pre "\<lambda>p. qualifies (waitForAck m (PNum k) t) (ack_event p)"]
    by blast
  have y': "qualifies (waitForAck m (PNum k) t) (MessageAck (fst y) (snd y))"
    using y by (simp only: ack_event_def)
  have "promise (run (waitForAck m (PNum k) t)
          (map ack_event xs @ MessageAck (fst y) (snd y) # (map ack_event ys @ TimerFired # post)))
        = Some \<lparr>r_ack = snd y, r_timedOut = False\<rparr>"
    using xs y' by (rule run_first_qualifying)
  then have "promise (run (waitForAck m (PNum k) t) (map ack_event pre @ TimerFired # post))
        = Some \<lparr>r_ack = snd y, r_timedOut = False\<rparr>"
    by (simp add: pre ack_event_def)
  moreover have "\<not> (\<forall>p \<in> set pre. \<not> (str_truthy (message_key (fst p))
                                \<and> message_key (fst p) = message_key m \<and> k \<le> snd p))"
    using False by (simp add: qualifies_waitForAck)
  ultimately show ?thesis
    by simp
qed

lemma message_key_examples:
  "message_key msg_A = Some ''true_1203@g.us_A''" "message_key msg_B = Some ''true_1203@g.us_B''"
  "message_key msg_C = Some ''true_1203@g.us_C''" "message_key msg_D = Some ''true_1203@g.us_D''"
  by (simp_all add: message_key_def str_truthy_def msg_A_def msg_B_def msg_C_def msg_D_def)

lemma msg_ack_examples:
  "msg_ack msg_A = None" "msg_ack msg_B = Some 1" "msg_ack msg_C = Some 2"
  "msg_ack msg_D = Some (- 1)"
  by (simp_all add: msg_A_def msg_B_def msg_C_def msg_D_def)

theorem timedOut_iff_no_qualifying_ack_witness:
  "promise (run (waitForAck msg_A (PNum 2) (Fin 5000))
       (map ack_event [(msg_A, 1), (msg_B, 4)] @ TimerFired # [MessageAck msg_A 2]))
     = Some \<lparr>r_ack = 1, r_timedOut = True\<rparr>
   \<and> promise (run (waitForAck msg_A (PNum 2) (Fin 5000))
       (map ack_event [(msg_B, 4), (msg_A, 1), (msg_A, 3)] @ TimerFired # []))
     = Some \<lparr>r_ack = 3, r_timedOut = False\<rparr>
   \<and> str_truthy (message_key msg_A) \<and> message_key msg_B \<noteq> message_key msg_A"
proof -
  have keys: "str_truthy (message_key msg_A)" "message_key msg_B \<noteq> message_key msg_A"
    by (simp_all add: message_key_examples str_truthy_def)
  obtain r where r: "promise (run (waitForAck msg_A (PNum 2) (Fin 5000))
       (map ack_event [(msg_A, 1), (msg_B, 4)] @ TimerFired # [MessageAck msg_A 2])) = Some r"
    and rt: "r_timedOut r \<longleftrightarrow>
           (\<forall>p \<in> set [(msg_A, 1), (msg_B, 4)]. \<not> (str_truthy (message_key (fst p))
                                \<and> message_key (fst p) = message_key msg_A \<and> (2::int) \<le> snd p))"
    using timedOut_iff_no_qualifying_ack
      [of msg_A 2 "Fin 5000" "[(msg_A, 1), (msg_B, 4)]" "[MessageAck msg_A 2]"]
    by blast
  have "r_timedOut r"
    using rt keys by simp
  moreover have "r_ack r = 1"
    using r run_timeout_first
      [of "[(msg_A, 1), (msg_B, 4)]" msg_A "PNum 2" "Fin 5000" "[MessageAck msg_A 2]"] keys
    by (simp add: qualifies_waitForAck msg_ack_examples)
  ultimately have a: "promise (run (waitForAck msg_A (PNum 2) (Fin 5000))
       (map ack_event [(msg_A, 1), (msg_B, 4)] @ TimerFired # [MessageAck msg_A 2]))
     = Some \<lparr>r_ack = 1, r_timedOut = True\<rparr>"
    using r by simp
  obtain q where q: "promise (run (waitForAck msg_A (PNum 2) (Fin 5000))
       (map ack_event [(msg_B, 4), (msg_A, 1), (msg_A, 3)] @ TimerFired # [])) = Some q"
    and qt: "r_timedOut q \<longleftrightarrow>
           (\<forall>p \<in> set [(msg_B, 4), (msg_A, 1), (msg_A, 3)]. \<not> (str_truthy (message_key (fst p))
                                \<and> message_key (fst p) = message_key msg_A \<and> (2::int) \<le> snd p))"
    using timedOut_iff_no_qualifying_ack
      [of msg_A 2 "Fin 5000" "[(msg_B, 4), (msg_A, 1), (msg_A, 3)]" "[]"]
    by blast
  have "\<not> r_timedOut q"
    using qt keys by simp
  moreover have "r_ack q = 3"
    using q run_first_qualifying
      [of "[(msg_B, 4), (msg_A, 1)]" msg_A "PNum 2" "Fin 5000" msg_A 3 "[TimerFired]"] keys
    by (simp add: qualifies_waitForAck ack_event_def waitForAck_def)
  ultimately have b: "promise (run (waitForAck msg_A (PNum 2) (Fin 5000))
       (map ack_event [(msg_B, 4), (msg_A, 1), (msg_A, 3)] @ TimerFired # []))
     = Some \<lparr>r_ack = 3, r_timedOut = False\<rparr>"
    using q by simp
  show ?thesis
    using a b keys by blast
qed



section \<open>Waits side by side\<close>

lemma targetId_step: "targetId (step w e) = targetId w"
  by (cases e) (simp_all add: onAck_def onTimeout_def resolve_def cleanup_def Let_def)

lemma targetId_run: "targetId (run w evs) = targetId w"
  by (induction evs arbitrary: w) (simp_all add: run_Nil run_Cons targetId_step)

lemma targetId_waitForAck: "targetId (waitForAck m c t) = message_key m"
  by (simp add: waitForAck_def)

lemma onAck_other_id: "message_key msg \<noteq> targetId w \<Longrightarrow> onAck w msg a = w"
  by (simp add: onAck_def Let_def)

lemma onAck_short_other_id: "message_key msg \<noteq> targetId w \<Longrightarrow> onAck_short w msg a = w"
  by (simp add: onAck_short_def)

lemma onAck_short_agrees: "str_truthy (targetId w) \<Longrightarrow> onAck_short w msg a = onAck w msg a"
  by (auto simp add: onAck_short_def onAck_def Let_def)

text \<open>
  C3. Two waits armed for messages with distinct identifiers, each in whatever state its own
  events have left it: an event that carries the identifier of the first message leaves the
  second wait exactly as it was. And \<open>onAck\<close> adds a resolution to its wait only for an
  event whose identifier is the wait's own \<open>targetId\<close>.
\<close>

theorem no_cross_resolution:
  "(message_key mA \<noteq> message_key mB \<and> message_key msg = message_key mA \<longrightarrow>
      emit msg a [run (waitForAck mA cA tA) evsA, run (waitForAck mB cB tB) evsB]
        = [step (run (waitForAck mA cA tA) evsA) (MessageAck msg a), run (waitForAck mB cB tB) evsB])
   \<and> (resolved (onAck w msg a) \<noteq> resolved w \<longrightarrow> message_key msg = targetId w)"
proof -
  have "step (run (waitForAck mB cB tB) evsB) (MessageAck msg a) = run (waitForAck mB cB tB) evsB"
    if "message_key mA \<noteq> message_key mB" and "message_key msg = message_key mA"
  proof -
    have "message_key msg \<noteq> targetId (run (waitForAck mB cB tB) evsB)"
      using that by (simp add: targetId_run targetId_waitForAck)
    then show ?thesis
      by (simp add: onAck_other_id)
  qed
  moreover have "message_key msg = targetId w" if "resolved (onAck w msg a) \<noteq> resolved w"
  proof (rule ccontr)
    assume "message_key msg \<noteq> targetId w"
    then have "onAck w msg a = w"
      by (rule onAck_other_id)
    then show False
      using that by simp
  qed
  ultimately show ?thesis
    by (simp add: emit_def)
qed

theorem no_cross_resolution_witness:
  "message_key msg_A \<noteq> message_key msg_B
   \<and> emit msg_A 4 [waitForAck msg_A (PNum 2) (Fin 5000), waitForAck msg_B (PNum 1) (Fin 5000)]
     = [resolve \<lparr>r_ack = 4, r_timedOut = False\<rparr> (cleanup (waitForAck msg_A (PNum 2) (Fin 5000))),
        waitForAck msg_B (PNum 1) (Fin 5000)]"
  using no_cross_resolution
    [of msg_A msg_B msg_A 4 "PNum 2" "Fin 5000" "[]" "PNum 1" "Fin 5000" "[]"]
  by (simp add: run_Nil waitForAck_def onAck_def message_key_def str_truthy_def msg_A_def msg_B_def
      Let_def)

section \<open>Properties of \<open>parseAckLevel\<close>\<close>

lemma toLowerCase_names:
  "toLowerCase ''server'' = ''server''" "toLowerCase ''device'' = ''device''"
  "toLowerCase ''read'' = ''read''" "toLowerCase ''played'' = ''played''"
  by code_simp+

lemma parseAckLevel_string:
  "s \<noteq> [] \<Longrightarrow> parseAckLevel E fallback (JStr s) =
     (if prop_truthy (AckMap (toLowerCase s)) then \<lparr>name = toLowerCase s, code = AckMap (toLowerCase s)\<rparr>
      else \<lparr>name = ''server'', code = PNum 1\<rparr>)"
  by (simp add: parseAckLevel_def js_or_def Let_def)

lemma parseAckLevel_known:
  assumes "s \<noteq> []"
  shows "(toLowerCase s = ''server'' \<longrightarrow> parseAckLevel E fallback (JStr s) = \<lparr>name = ''server'', code = PNum 1\<rparr>)
       \<and> (toLowerCase s = ''device'' \<longrightarrow> parseAckLevel E fallback (JStr s) = \<lparr>name = ''device'', code = PNum 2\<rparr>)
       \<and> (toLowerCase s = ''read'' \<longrightarrow> parseAckLevel E fallback (JStr s) = \<lparr>name = ''read'', code = PNum 3\<rparr>)
       \<and> (toLowerCase s = ''played'' \<longrightarrow> parseAckLevel E fallback (JStr s) = \<lparr>name = ''played'', code = PNum 4\<rparr>)"
  using assms by (simp add: parseAckLevel_string AckMap_def)

lemma parseAckLevel_default:
  assumes "s \<noteq> []" and "toLowerCase s \<notin> {''server'', ''device'', ''read'', ''played''}"
    and "toLowerCase s \<notin> set Object_prototype_keys"
  shows "parseAckLevel E fallback (JStr s) = \<lparr>name = ''server'', code = PNum 1\<rparr>"
  using assms by (simp add: parseAckLevel_string AckMap_def)

text \<open>
  C5. The claim is that every non-empty string other than the four level names is mapped to
  \<open>{name: "server", code: 1}\<close>. The lookup \<open>AckMap[k]\<close> also finds what the literal
  inherits, so for the string \<open>constructor\<close> the function returns that name with the
  inherited member as code, a minimum that no acknowledgement level reaches.
\<close>

theorem parseAckLevel_constructor:
  "parseAckLevel E fallback (JStr ''constructor'')
     = \<lparr>name = ''constructor'', code = PObject ''constructor''\<rparr>
   \<and> \<not> ack_reaches a (code (parseAckLevel E fallback (JStr ''constructor'')))"
proof -
  have "toLowerCase ''constructor'' = ''constructor''"
    by code_simp
  then have "parseAckLevel E fallback (JStr ''constructor'')
     = \<lparr>name = ''constructor'', code = PObject ''constructor''\<rparr>"
    by (simp add: parseAckLevel_string AckMap_def Object_prototype_keys_def)
  then show ?thesis
    by simp
qed

section \<open>Properties of the handler\<close>

lemma send_group_authorized_ready:
  assumes "b_bot_token b = JStr (BOT_TOKEN cfg)"
  shows "send_group E cfg True b W =
     (if text_field E (b_message b) = []
      then Some \<lparr>status = 400, payload = Error ''message is required''\<rparr>
      else case resolve_chat (text_field E (b_groupId b)) (text_field E (b_group b)) (getChats W) of
             Reply st e \<Rightarrow> Some \<lparr>status = st, payload = Error e\<rparr>
           | Failed \<Rightarrow> Some \<lparr>status = 500, payload = Error ''send failed''\<rparr>
           | Chat chatId \<Rightarrow>
               send_and_wait W chatId (text_field E (b_message b))
                 (parseAckLevel E (ACK_LEVEL_DEFAULT cfg) (b_ack b))
                 (request_timeout E cfg (b_timeoutMs b)))"
  using assms by (simp add: send_group_def Let_def)

lemma resolve_chat_by_id: "gid \<noteq> [] \<Longrightarrow> resolve_chat gid grp chats = Chat gid"
  by (simp add: resolve_chat_def)

lemma find_first_match:
  "\<forall>c \<in> set pre. \<not> P c \<Longrightarrow> P g \<Longrightarrow> find P (pre @ g # post) = Some g"
  by (induction pre) simp_all


lemma resolve_chat_by_name:
  "grp \<noteq> [] \<Longrightarrow> \<forall>c \<in> set pre. \<not> group_matches grp c \<Longrightarrow> group_matches grp g \<Longrightarrow>
   resolve_chat [] grp (Inr (pre @ g # post)) = Chat (chat_id g)"
  by (simp add: resolve_chat_def find_first_match)


lemma send_and_wait_getChats [simp]:
  "send_and_wait (W\<lparr>getChats := cs\<rparr>) chatId text lvl t = send_and_wait W chatId text lvl t"
  by (simp add: send_and_wait_def split: sum.splits)


lemma group_matches_iff:
  "group_matches grp c \<longleftrightarrow>
     isGroup c \<and> toLowerCase (case chat_name c of None \<Rightarrow> [] | Some n \<Rightarrow> n) = toLowerCase grp"
  by (simp add: group_matches_def)











text \<open>
  C8. When the message was sent (to the \<open>groupId\<close> given, or to the first group matching
  the name) and no acknowledgement event before the firing of the timer carries its
  identifier with a level that reaches the requested minimum, the answer is 200 with
  \<open>ok: true\<close>, \<open>timedOut: true\<close> and, as \<open>ack\<close>, the name of the level the message
  object holds: \<open>error\<close>, \<open>server\<close>, \<open>device\<close>, \<open>read\<close> or \<open>played\<close> for 0 to 4,
  the number itself otherwise, and \<open>server\<close> when it holds none.
\<close>

theorem ack_timeout_is_success:
  assumes "b_bot_token b = JStr (BOT_TOKEN cfg)"
    and "text_field E (b_message b) \<noteq> []"
    and "text_field E (b_groupId b) \<noteq> [] \<and> chatId = text_field E (b_groupId b)
         \<or> text_field E (b_groupId b) = [] \<and> text_field E (b_group b) \<noteq> []
           \<and> getChats W = Inr (before @ g # after)
           \<and> (\<forall>c \<in> set before.
                 \<not> (isGroup c \<and> toLowerCase (case chat_name c of None \<Rightarrow> [] | Some n \<Rightarrow> n)
                                  = toLowerCase (text_field E (b_group b))))
           \<and> isGroup g
           \<and> toLowerCase (case chat_name g of None \<Rightarrow> [] | Some n \<Rightarrow> n)
                = toLowerCase (text_field E (b_group b))
           \<and> chatId = chat_id g"
    and "sendMessage W chatId (text_field E (b_message b)) = Inr msg"
    and "events W = map ack_event pre @ TimerFired # post"
    and "\<forall>p \<in> set pre.
           \<not> (str_truthy (message_key (fst p)) \<and> message_key (fst p) = message_key msg
               \<and> ack_reaches (snd p) (code (parseAckLevel E (ACK_LEVEL_DEFAULT cfg) (b_ack b))))"
  shows "send_group E cfg True b W =
     Some \<lparr>status = 200,
           payload = Sent
             \<lparr>ok = True, groupId = chatId,
              messageId = (if str_truthy (id_serialized msg) then id_serialized msg else None),
              ack =
                (case msg_ack msg of
                   None \<Rightarrow> ''server''
                 | Some a \<Rightarrow>
                     if a = 0 then ''error''
                     else if a = 1 then ''server''
                     else if a = 2 then ''device''
                     else if a = 3 then ''read''
                     else if a = 4 then ''played''
                     else show_int a),
              timedOut = True,
              waitedFor = name (parseAckLevel E (ACK_LEVEL_DEFAULT cfg) (b_ack b)),
              reply_timeoutMs = request_timeout E cfg (b_timeoutMs b)\<rparr>\<rparr>"
proof -
  let ?lvl = "parseAckLevel E (ACK_LEVEL_DEFAULT cfg) (b_ack b)"
  let ?t = "request_timeout E cfg (b_timeoutMs b)"
  have "\<forall>p \<in> set pre. \<not> qualifies (waitForAck msg (code ?lvl) ?t) (ack_event p)"
    using assms(6) by (simp add: qualifies_waitForAck)
  then have "promise (run (waitForAck msg (code ?lvl) ?t) (events W))
      = Some \<lparr>r_ack = (case msg_ack msg of None \<Rightarrow> 1 | Some a \<Rightarrow> a), r_timedOut = True\<rparr>"
    unfolding assms(5) by (rule run_timeout_first)
  moreover have "ackStr (case msg_ack msg of None \<Rightarrow> 1 | Some a \<Rightarrow> a)
      = (case msg_ack msg of
           None \<Rightarrow> ''server''
         | Some a \<Rightarrow>
             if a = 0 then ''error''
             else if a = 1 then ''server''
             else if a = 2 then ''device''
             else if a = 3 then ''read''
             else if a = 4 then ''played''
             else show_int a)"
    by (simp add: ackStr_def ackNames_def split: option.splits)
  ultimately have sent: "send_and_wait W chatId (text_field E (b_message b)) ?lvl ?t =
     Some \<lparr>status = 200,
           payload = Sent
             \<lparr>ok = True, groupId = chatId,
              messageId = (if str_truthy (id_serialized msg) then id_serialized msg else None),
              ack =
                (case msg_ack msg of
                   None \<Rightarrow> ''server''
                 | Some a \<Rightarrow>
                     if a = 0 then ''error''
                     else if a = 1 then ''server''
                     else if a = 2 then ''device''
                     else if a = 3 then ''read''
                     else if a = 4 then ''played''
                     else show_int a),
              timedOut = True, waitedFor = name ?lvl, reply_timeoutMs = ?t\<rparr>\<rparr>"
    using assms(4) by (simp add: send_and_wait_def)
  have "resolve_chat (text_field E (b_groupId b)) (text_field E (b_group b)) (getChats W)
      = Chat chatId"
    using assms(3)
  proof (elim disjE conjE)
    assume "text_field E (b_groupId b) \<noteq> []" "chatId = text_field E (b_groupId b)"
    then show ?thesis
      by (simp add: resolve_chat_by_id)
  next
    assume "text_field E (b_groupId b) = []" "text_field E (b_group b) \<noteq> []"
      "getChats W = Inr (before @ g # after)"
      "\<forall>c \<in> set before.
         \<not> (isGroup c \<and> toLowerCase (case chat_name c of None \<Rightarrow> [] | Some n \<Rightarrow> n)
                          = toLowerCase (text_field E (b_group b)))"
      "isGroup g"
      "toLowerCase (case chat_name g of None \<Rightarrow> [] | Some n \<Rightarrow> n)
         = toLowerCase (text_field E (b_group b))"
      "chatId = chat_id g"
    then show ?thesis
      by (simp add: resolve_chat_by_name group_matches_iff)
  qed
  then show ?thesis
    using assms(1,2) sent by (simp add: send_group_authorized_ready)
qed


theorem ack_timeout_is_success_witness:
  "send_group table_engine cfg_A True body_A
      (world_with chats_A ''1203@g.us'' ''build passed'' msg_C
         [MessageAck msg_B 4, MessageAck msg_C 2, TimerFired, MessageAck msg_C 3])
     = Some \<lparr>status = 200,
             payload = Sent
               \<lparr>ok = True, groupId = ''1203@g.us'', messageId = Some ''true_1203@g.us_C'',
                ack = ''device'', timedOut = True, waitedFor = ''read'',
                reply_timeoutMs = Fin 5000\<rparr>\<rparr>
   \<and> send_group table_engine cfg_A True body_A
      (world_with chats_A ''1203@g.us'' ''build passed'' msg_D [TimerFired])
     = Some \<lparr>status = 200,
             payload = Sent
               \<lparr>ok = True, groupId = ''1203@g.us'', messageId = Some ''true_1203@g.us_D'',
                ack = ''-1'', timedOut = True, waitedFor = ''read'',
                reply_timeoutMs = Fin 5000\<rparr>\<rparr>
   \<and> send_group table_engine cfg_A True
      (body_A\<lparr>b_groupId := JUndefined, b_group := JStr '' Release Notices ''\<rparr>)
      (world_with chats_A ''1204@g.us'' ''build passed'' msg_A [MessageAck msg_A 2, TimerFired])
     = Some \<lparr>status = 200,
             payload = Sent
               \<lparr>ok = True, groupId = ''1204@g.us'', messageId = Some ''true_1203@g.us_A'',
                ack = ''server'', timedOut = True, waitedFor = ''read'',
                reply_timeoutMs = Fin 5000\<rparr>\<rparr>"
proof -
  let ?WC = "world_with chats_A ''1203@g.us'' ''build passed'' msg_C
         [MessageAck msg_B 4, MessageAck msg_C 2, TimerFired, MessageAck msg_C 3]"
  let ?WD = "world_with chats_A ''1203@g.us'' ''build passed'' msg_D [TimerFired]"
  let ?WN = "world_with chats_A ''1204@g.us'' ''build passed'' msg_A [MessageAck msg_A 2, TimerFired]"
  let ?bN = "body_A\<lparr>b_groupId := JUndefined, b_group := JStr '' Release Notices ''\<rparr>"
  have auth: "b_bot_token body_A = JStr (BOT_TOKEN cfg_A)" "b_bot_token ?bN = JStr (BOT_TOKEN cfg_A)"
    by (simp_all add: body_A_def cfg_A_def)
  have nonempty: "text_field table_engine (b_message body_A) \<noteq> []"
    "text_field table_engine (b_message ?bN) \<noteq> []"
    by code_simp+
  note device = ack_timeout_is_success
    [where E = table_engine and cfg = cfg_A and b = body_A and W = ?WC and chatId = "''1203@g.us''"
       and msg = msg_C and pre = "[(msg_B, 4), (msg_C, 2)]" and post = "[MessageAck msg_C 3]"
       and before = "[]" and g = "chats_A ! 0" and after = "[]", OF auth(1) nonempty(1)]
  have a: "send_group table_engine cfg_A True body_A ?WC
     = Some \<lparr>status = 200,
             payload = Sent
               \<lparr>ok = True, groupId = ''1203@g.us'', messageId = Some ''true_1203@g.us_C'',
                ack = ''device'', timedOut = True, waitedFor = ''read'',
                reply_timeoutMs = Fin 5000\<rparr>\<rparr>"
    by (subst device) code_simp+
  note error_level = ack_timeout_is_success
    [where E = table_engine and cfg = cfg_A and b = body_A and W = ?WD and chatId = "''1203@g.us''"
       and msg = msg_D and pre = "[]" and post = "[]"
       and before = "[]" and g = "chats_A ! 0" and after = "[]", OF auth(1) nonempty(1)]
  have b: "send_group table_engine cfg_A True body_A ?WD
     = Some \<lparr>status = 200,
             payload = Sent
               \<lparr>ok = True, groupId = ''1203@g.us'', messageId = Some ''true_1203@g.us_D'',
                ack = ''-1'', timedOut = True, waitedFor = ''read'',
                reply_timeoutMs = Fin 5000\<rparr>\<rparr>"
    by (subst error_level) code_simp+
  note by_name = ack_timeout_is_success
    [where E = table_engine and cfg = cfg_A and b = ?bN and W = ?WN and chatId = "''1204@g.us''"
       and msg = msg_A and pre = "[(msg_A, 2)]" and post = "[]"
       and before = "[chats_A ! 0]" and g = "chats_A ! 1" and after = "[chats_A ! 2]",
     OF auth(2) nonempty(2)]
  have c: "send_group table_engine cfg_A True ?bN ?WN
     = Some \<lparr>status = 200,
             payload = Sent
               \<lparr>ok = True, groupId = ''1204@g.us'', messageId = Some ''true_1203@g.us_A'',
                ack = ''server'', timedOut = True, waitedFor = ''read'',
                reply_timeoutMs = Fin 5000\<rparr>\<rparr>"
    by (subst by_name) code_simp+
  show ?thesis
    using a b c by blast
qed

lemma falsy_values:
  "\<not> truthy v \<longleftrightarrow> v \<in> {JUndefined, JNull, JBool False, JNum NaN, JNum (Fin 0), JStr []}"
  by (cases v) auto





section \<open>Properties of the start-up\<close>

lemma env_or_empty: "env_or v [] = [] \<longleftrightarrow> v \<in> {None, Some []}"
  by (cases v) (auto simp add: env_or_def)

text \<open>
  C9. The module exits with status 1 exactly when the secret or the store target is unset or
  empty, or the backup interval is NaN, negative, or nonzero and below 60000; no route exists
  then. In every other case it goes on with the configuration read from the environment.
\<close>

theorem startup_guards:
  "startup E env =
     (if env_BOT_TOKEN env \<in> {None, Some []} \<or> env_MONGO_URL env \<in> {None, Some []}
         \<or> BACKUP_MS (read_config E env) = NaN
         \<or> js_lt (BACKUP_MS (read_config E env)) (Fin 0)
         \<or> (BACKUP_MS (read_config E env) \<noteq> Fin 0
              \<and> js_lt (BACKUP_MS (read_config E env)) (Fin 60000))
      then Exit 1 else Proceed (read_config E env))
   \<and> (startup E env = Exit 1 \<longrightarrow> server E env = None)
   \<and> (startup E env \<noteq> Exit 1 \<longrightarrow> server E env = Some (send_group E (read_config E env)))"
proof -
  have tok: "BOT_TOKEN (read_config E env) = [] \<longleftrightarrow> env_BOT_TOKEN env \<in> {None, Some []}"
    by (simp only: read_config_def config.simps env_or_empty)
  have url: "MONGO_URL (read_config E env) = [] \<longleftrightarrow> env_MONGO_URL env \<in> {None, Some []}"
    by (simp only: read_config_def config.simps env_or_empty)
  have guards: "startup E env =
     (if env_BOT_TOKEN env \<in> {None, Some []} \<or> env_MONGO_URL env \<in> {None, Some []}
         \<or> BACKUP_MS (read_config E env) = NaN
         \<or> js_lt (BACKUP_MS (read_config E env)) (Fin 0)
         \<or> (BACKUP_MS (read_config E env) \<noteq> Fin 0
              \<and> js_lt (BACKUP_MS (read_config E env)) (Fin 60000))
      then Exit 1 else Proceed (read_config E env))"
    unfolding startup_def Let_def isNaN_def tok url by simp
  have "startup E env = Exit 1 \<or> startup E env = Proceed (read_config E env)"
    by (simp only: guards split: if_splits) simp
  then have "(startup E env = Exit 1 \<longrightarrow> server E env = None)
   \<and> (startup E env \<noteq> Exit 1 \<longrightarrow> server E env = Some (send_group E (read_config E env)))"
    by (auto simp add: server_def)
  with guards show ?thesis
    by blast
qed

lemma backup_ms_examples:
  "BACKUP_MS (read_config table_engine env_A) = Fin 0"
  "BACKUP_MS (read_config table_engine (env_A\<lparr>env_WA_BACKUP_MS := Some ''30000''\<rparr>)) = Fin 30000"
  "BACKUP_MS (read_config table_engine (env_A\<lparr>env_WA_BACKUP_MS := Some ''60000''\<rparr>)) = Fin 60000"
  "BACKUP_MS (read_config table_engine (env_A\<lparr>env_WA_BACKUP_MS := Some ''soon''\<rparr>)) = NaN"
  by (simp_all add: read_config_def table_engine_def env_A_def)

theorem startup_guards_witness:
  "startup table_engine env_A = Proceed (read_config table_engine env_A)
   \<and> server table_engine env_A = Some (send_group table_engine (read_config table_engine env_A))
   \<and> startup table_engine (env_A\<lparr>env_WA_BACKUP_MS := Some ''60000''\<rparr>)
       = Proceed (read_config table_engine (env_A\<lparr>env_WA_BACKUP_MS := Some ''60000''\<rparr>))
   \<and> startup table_engine (env_A\<lparr>env_WA_BACKUP_MS := Some ''30000''\<rparr>) = Exit 1
   \<and> server table_engine (env_A\<lparr>env_WA_BACKUP_MS := Some ''30000''\<rparr>) = None
   \<and> startup table_engine (env_A\<lparr>env_WA_BACKUP_MS := Some ''soon''\<rparr>) = Exit 1
   \<and> startup table_engine (env_A\<lparr>env_BOT_TOKEN := None\<rparr>) = Exit 1
   \<and> startup table_engine (env_A\<lparr>env_MONGO_URL := Some []\<rparr>) = Exit 1"
proof -
  have a: "startup table_engine env_A = Proceed (read_config table_engine env_A)"
    using startup_guards [of table_engine env_A]
    by (simp add: backup_ms_examples) (simp add: env_A_def)
  have b: "server table_engine env_A = Some (send_group table_engine (read_config table_engine env_A))"
    using startup_guards [of table_engine env_A] a by simp
  have c: "startup table_engine (env_A\<lparr>env_WA_BACKUP_MS := Some ''60000''\<rparr>)
       = Proceed (read_config table_engine (env_A\<lparr>env_WA_BACKUP_MS := Some ''60000''\<rparr>))"
    using startup_guards [of table_engine "env_A\<lparr>env_WA_BACKUP_MS := Some ''60000''\<rparr>"]
    by (simp add: backup_ms_examples) (simp add: env_A_def)
  have d: "startup table_engine (env_A\<lparr>env_WA_BACKUP_MS := Some ''30000''\<rparr>) = Exit 1"
    using startup_guards [of table_engine "env_A\<lparr>env_WA_BACKUP_MS := Some ''30000''\<rparr>"]
    by (simp add: backup_ms_examples)
  have e: "server table_engine (env_A\<lparr>env_WA_BACKUP_MS := Some ''30000''\<rparr>) = None"
    using startup_guards [of table_engine "env_A\<lparr>env_WA_BACKUP_MS := Some ''30000''\<rparr>"] d by simp
  have f: "startup table_engine (env_A\<lparr>env_WA_BACKUP_MS := Some ''soon''\<rparr>) = Exit 1"
    using startup_guards [of table_engine "env_A\<lparr>env_WA_BACKUP_MS := Some ''soon''\<rparr>"]
    by (simp add: backup_ms_examples)
  have g: "startup table_engine (env_A\<lparr>env_BOT_TOKEN := None\<rparr>) = Exit 1"
    using startup_guards [of table_engine "env_A\<lparr>env_BOT_TOKEN := None\<rparr>"] by simp
  have h: "startup table_engine (env_A\<lparr>env_MONGO_URL := Some []\<rparr>) = Exit 1"
    using startup_guards [of table_engine "env_A\<lparr>env_MONGO_URL := Some []\<rparr>"] by simp
  show ?thesis
    using a b c d e f g h by blast
qed

text \<open>The older variant, for comparison: an interval that is no number does not stop it.\<close>

lemma startup_older_keeps_going:
  "startup_older table_engine (env_A\<lparr>env_WA_BACKUP_MS := Some ''soon''\<rparr>) = Proceed_older None"
  "startup_older table_engine (env_A\<lparr>env_WA_BACKUP_MS := Some ''30000''\<rparr>) = Proceed_older None"
  "startup_older table_engine (env_A\<lparr>env_WA_BACKUP_MS := Some ''60000''\<rparr>)
     = Proceed_older (Some (Fin 60000))"
  by (simp_all add: startup_older_def backupSyncIntervalMs_older_def table_engine_def env_A_def
      env_or_def)

end
